theory Spec2Isabelle
  imports Main "HOL-Library.Word"
begin

section \<open>JavaScript strings\<close>

text \<open>
  A JavaScript string is a sequence of UTF-16 code units: \<open>length\<close>, \<open>substring\<close> and
  \<open>trim\<close> all work on code units. Literals of the source are ASCII and are written
  through \<open>ascii\<close>.
\<close>

type_synonym js_string = "16 word list"

definition ascii :: "string \<Rightarrow> js_string" where
  "ascii s = map (\<lambda>c. of_nat (of_char c)) s"

text \<open>
  ECMAScript WhiteSpace and LineTerminator code points, the ones \<open>String.prototype.trim\<close>
  strips: TAB, LF, VT, FF, CR, SP, NBSP, the Unicode space separators, LS, PS and
  ZWNBSP. All of them lie in the basic plane, so each is one code unit.
\<close>

definition isWhiteSpace :: "16 word \<Rightarrow> bool" where
  "isWhiteSpace c =
     (c = 0x0009 \<or> c = 0x000A \<or> c = 0x000B \<or> c = 0x000C \<or> c = 0x000D \<or>
      c = 0x0020 \<or> c = 0x00A0 \<or> c = 0x1680 \<or> (0x2000 \<le> c \<and> c \<le> 0x200A) \<or>
      c = 0x2028 \<or> c = 0x2029 \<or> c = 0x202F \<or> c = 0x205F \<or> c = 0x3000 \<or>
      c = 0xFEFF)"

definition trim :: "js_string \<Rightarrow> js_string" where
  "trim s = rev (dropWhile isWhiteSpace (rev (dropWhile isWhiteSpace s)))"

text \<open>\<open>s.substring(0, n)\<close> for \<open>0 \<le> n\<close>: the first \<open>n\<close> code units, or all of \<open>s\<close> when it is shorter.\<close>

definition substring0 :: "js_string \<Rightarrow> nat \<Rightarrow> js_string" where
  "substring0 s n = take n s"

text \<open>Truthiness of a value of type \<open>string | null | undefined\<close>: present and not empty.\<close>

fun truthy :: "js_string option \<Rightarrow> bool" where
  "truthy None = False"
| "truthy (Some s) = (s \<noteq> [])"

text \<open>The settlement of an awaited promise.\<close>

datatype 'a outcome = Resolved 'a | Rejected


section \<open>MainContainer: chat mode and sidebar\<close>

text \<open>
  The component is entered with \<open>'reports'\<close> as its first mode and compares against
  \<open>'private'\<close>; the third value is \<open>'team'\<close>.
\<close>

datatype ChatMode = Reports | Private | Team

record main_container =
  sidebarOpen :: bool
  chatMode :: ChatMode
  conversationToLoad :: "js_string option"
  shouldStartNewChat :: bool
  showTeamMenu :: bool

definition main_initial :: main_container where
  "main_initial = \<lparr>sidebarOpen = False, chatMode = Reports, conversationToLoad = None,
     shouldStartNewChat = False, showTeamMenu = False\<rparr>"

text \<open>The body of the effect that depends on \<open>chatMode\<close> (lines 18--22).\<close>

definition chatModeEffect :: "main_container \<Rightarrow> main_container" where
  "chatModeEffect s = (if chatMode s = Private then s\<lparr>sidebarOpen := False\<rparr> else s)"

text \<open>
  \<open>setChatMode\<close>, as \<open>ChatModeToggle\<close> calls it: a state setter given the current value
  causes no render; a new value is rendered and the effect, whose only dependency is
  \<open>chatMode\<close>, runs afterwards.
\<close>

definition setChatMode :: "ChatMode \<Rightarrow> main_container \<Rightarrow> main_container" where
  "setChatMode m s = (if chatMode s = m then s else chatModeEffect (s\<lparr>chatMode := m\<rparr>))"

text \<open>The header's \<open>onToggleSidebar\<close>; the toggle is offered in private mode only.\<close>

definition onToggleSidebar :: "main_container \<Rightarrow> main_container" where
  "onToggleSidebar s = s\<lparr>sidebarOpen := \<not> sidebarOpen s\<rparr>"

definition handleLoadConversation :: "js_string \<Rightarrow> main_container \<Rightarrow> main_container" where
  "handleLoadConversation conversationId s =
     s\<lparr>conversationToLoad := Some conversationId, sidebarOpen := False\<rparr>"

definition handleStartNewConversation :: "main_container \<Rightarrow> main_container" where
  "handleStartNewConversation s = s\<lparr>shouldStartNewChat := True, sidebarOpen := False\<rparr>"

definition handleSwitchToPrivateChat :: "js_string \<Rightarrow> main_container \<Rightarrow> main_container" where
  "handleSwitchToPrivateChat conversationId s =
     (setChatMode Private s)\<lparr>conversationToLoad := Some conversationId\<rparr>"

definition handleToggleTeamMenu :: "main_container \<Rightarrow> main_container" where
  "handleToggleTeamMenu s = s\<lparr>showTeamMenu := \<not> showTeamMenu s\<rparr>"


section \<open>GroupChat: data\<close>

datatype message_type = User | Astra | System

record GroupMessage =
  message_id :: js_string
  user_id :: js_string
  user_name :: js_string
  user_email :: js_string
  message_content :: js_string
  message_type :: message_type
  mentions :: "js_string list"
  astra_prompt :: "js_string option"
  visualization_data :: "js_string option"
  created_at :: js_string
  updated_at :: js_string

record OriginalMessage =
  om_id :: js_string
  om_content :: js_string
  userName :: js_string
  timestamp :: js_string

record ReplyState =
  isReplying :: bool
  messageId :: "js_string option"
  messageSnippet :: "js_string option"
  originalMessage :: "OriginalMessage option"

record SelectedImage =
  url :: js_string
  filename :: js_string
  image_size :: nat

text \<open>An entry of \<open>visualizationStates\<close>, as the three updates of the component write it.\<close>

record VisualizationEntry =
  isGenerating :: bool
  content :: "js_string option"
  hasVisualization :: bool

text \<open>What the scroll effects read from the scroll container, in pixels.\<close>

record Container =
  scrollHeight :: int
  scrollTop :: int
  clientHeight :: int

datatype behavior = Smooth | Auto

text \<open>
  What the component does to the outside, in program order: calls of the hooks'
  functions, \<open>scrollIntoView\<close> on the end anchor, and timers it starts
  (\<open>ScrollIntoViewLater d\<close> is \<open>setTimeout\<close> of a \<open>scrollIntoView\<close> on the anchor if it is
  still there, \<open>ScrollToBottomLater d\<close> is \<open>setTimeout\<close> of a call of \<open>scrollToBottom\<close>).
\<close>

datatype effect =
    SendMessage js_string "SelectedImage option" "OriginalMessage option"
  | SearchMessages js_string
  | GenerateVisualization js_string js_string
  | ShowVisualization js_string
  | ScrollIntoView behavior
  | ScrollIntoViewLater nat behavior
  | ScrollToBottomLater nat behavior

text \<open>
  The state of the component: its \<open>useState\<close> cells, the values it reads from the
  hooks (\<open>userId\<close> is \<open>user?.id\<close>), its two refs (\<open>messagesEndRef\<close>: is the anchor
  mounted; \<open>messagesContainerRef\<close>: the container's measures when it is mounted),
  whether the page runs as an installed app, and the trace of effects so far. A cell
  holds the value last given to its setter, the one the next render shows.
\<close>

record group_chat =
  inputValue :: js_string
  searchQuery :: js_string
  searchResults :: "GroupMessage list"
  isSearching :: bool
  selectedImage :: "SelectedImage option"
  replyState :: ReplyState
  visualizationStates :: "js_string \<rightharpoonup> VisualizationEntry"
  hasScrolledToBottom :: bool
  showTeamMembers :: bool
  showSummarizeOptions :: bool
  showSearchResults :: bool
  searchInput :: js_string
  userId :: "js_string option"
  messages :: "GroupMessage list"
  loadingMore :: bool
  loading :: bool
  error :: "js_string option"
  messagesEndRef :: bool
  messagesContainerRef :: "Container option"
  isPWA :: bool
  effects :: "effect list"

definition idleReply :: ReplyState where
  "idleReply = \<lparr>isReplying = False, messageId = None, messageSnippet = None,
     originalMessage = None\<rparr>"

text \<open>The component as mounted, with the hooks idle, nobody signed in and nothing rendered yet.\<close>

definition group_chat_initial :: group_chat where
  "group_chat_initial =
     \<lparr>inputValue = [], searchQuery = [], searchResults = [], isSearching = False,
      selectedImage = None, replyState = idleReply, visualizationStates = Map.empty,
      hasScrolledToBottom = False, showTeamMembers = False, showSummarizeOptions = False,
      showSearchResults = False, searchInput = [], userId = None, messages = [],
      loadingMore = False, loading = False, error = None, messagesEndRef = True,
      messagesContainerRef = None, isPWA = False, effects = []\<rparr>"

definition emit :: "effect list \<Rightarrow> group_chat \<Rightarrow> group_chat" where
  "emit es s = s\<lparr>effects := effects s @ es\<rparr>"

text \<open>
  Modelled from the spec: \<open>setError\<close> of \<open>useGroupChat\<close> (the hook is not among the
  sources) stores its argument in the hook's reactive \<open>error\<close>, the string the component
  shows in its dismissible banner.
\<close>

definition setError :: "js_string \<Rightarrow> group_chat \<Rightarrow> group_chat" where
  "setError msg s = s\<lparr>error := Some msg\<rparr>"


section \<open>GroupChat: scrolling\<close>

text \<open>\<open>scrollToBottom\<close> (lines 80--101); its default behaviour \<open>'smooth'\<close> is never relied on.\<close>

definition scrollCommands :: "behavior \<Rightarrow> group_chat \<Rightarrow> effect list" where
  "scrollCommands b s =
     (if messagesEndRef s then
        (if isPWA s then [ScrollIntoView Auto, ScrollIntoViewLater 100 Smooth]
         else [ScrollIntoView b])
      else [])"

definition scrollToBottom :: "behavior \<Rightarrow> group_chat \<Rightarrow> group_chat" where
  "scrollToBottom b s = emit (scrollCommands b s) s"

text \<open>The effect on \<open>messages.length\<close> and \<open>hasScrolledToBottom\<close> (lines 104--115).\<close>

definition messagesLengthEffect :: "group_chat \<Rightarrow> group_chat" where
  "messagesLengthEffect s =
     (if length (messages s) > 0 then
        (if \<not> hasScrolledToBottom s \<or> length (messages s) > 0
         then (scrollToBottom Auto s)\<lparr>hasScrolledToBottom := True\<rparr>
         else s)
      else s)"

definition isNearBottom :: "Container \<Rightarrow> bool" where
  "isNearBottom container = (scrollHeight container - scrollTop container - clientHeight container < 100)"

definition isOwnMessage :: "group_chat \<Rightarrow> bool" where
  "isOwnMessage s = (Some (user_id (last (messages s))) = userId s)"

text \<open>The effect on \<open>messages\<close>, \<open>loadingMore\<close> and \<open>user?.id\<close> (lines 139--155).\<close>

definition newMessagesEffect :: "group_chat \<Rightarrow> group_chat" where
  "newMessagesEffect s =
     (if length (messages s) > 0 \<and> \<not> loadingMore s then
        (case messagesContainerRef s of
           None \<Rightarrow> s
         | Some container \<Rightarrow>
             if isNearBottom container \<or> isOwnMessage s then scrollToBottom Smooth s else s)
      else s)"

text \<open>
  The hook delivers a new \<open>messages\<close> array \<open>ms\<close>. After the render the effects whose
  dependencies changed run in the order they are declared: the first when the length
  changed, the second always (the array is a new one). When the first one flipped
  \<open>hasScrolledToBottom\<close>, the render that follows runs it once more, since the flag is
  among its dependencies.
\<close>

definition messagesChanged :: "GroupMessage list \<Rightarrow> group_chat \<Rightarrow> group_chat" where
  "messagesChanged ms s =
     (let s1 = s\<lparr>messages := ms\<rparr>;
          s2 = (if length ms = length (messages s) then s1 else messagesLengthEffect s1);
          s3 = newMessagesEffect s2
      in if hasScrolledToBottom s3 = hasScrolledToBottom s then s3 else messagesLengthEffect s3)"


section \<open>GroupChat: sending\<close>

definition sendRejected :: "group_chat \<Rightarrow> bool" where
  "sendRejected s = ((trim (inputValue s) = [] \<and> selectedImage s = None) \<or> loading s)"

definition replyData :: "group_chat \<Rightarrow> OriginalMessage option" where
  "replyData s = (if isReplying (replyState s) then originalMessage (replyState s) else None)"

text \<open>
  The calls \<open>handleSendMessage\<close> makes past its guard, up to the \<open>await\<close>: the three
  setters (lines 212--219), then \<open>sendMessage\<close> (line 222).
\<close>

datatype send_call =
    Call_setInputValue js_string
  | Call_setSelectedImage "SelectedImage option"
  | Call_setReplyState ReplyState
  | Call_sendMessage js_string "SelectedImage option" "OriginalMessage option"

text \<open>They are made in this order, with the locals read at lines 207--209.\<close>

definition handleSendMessage_calls :: "group_chat \<Rightarrow> send_call list" where
  "handleSendMessage_calls s =
     (let messageText = trim (inputValue s);
          imageData = selectedImage s;
          reply = replyData s
      in [Call_setInputValue [], Call_setSelectedImage None, Call_setReplyState idleReply,
          Call_sendMessage messageText imageData reply])"

fun perform :: "send_call \<Rightarrow> group_chat \<Rightarrow> group_chat" where
  "perform (Call_setInputValue v) s = s\<lparr>inputValue := v\<rparr>"
| "perform (Call_setSelectedImage v) s = s\<lparr>selectedImage := v\<rparr>"
| "perform (Call_setReplyState v) s = s\<lparr>replyState := v\<rparr>"
| "perform (Call_sendMessage messageText imageData reply) s =
     emit [SendMessage messageText imageData reply] s"

fun performAll :: "send_call list \<Rightarrow> group_chat \<Rightarrow> group_chat" where
  "performAll [] s = s"
| "performAll (c # cs) s = performAll cs (perform c s)"

text \<open>The state in which \<open>handleSendMessage\<close> waits for the promise.\<close>

definition handleSendMessage_begin :: "group_chat \<Rightarrow> group_chat" where
  "handleSendMessage_begin s = performAll (handleSendMessage_calls s) s"

text \<open>After the \<open>await\<close>: the promise resolved, or it rejected and the \<open>catch\<close> runs (lines 223--232).\<close>

definition handleSendMessage_settle :: "unit outcome \<Rightarrow> group_chat \<Rightarrow> group_chat" where
  "handleSendMessage_settle out s =
     (case out of
        Resolved _ \<Rightarrow> emit [ScrollToBottomLater 100 Smooth] s
      | Rejected \<Rightarrow> setError (ascii ''Failed to send message. Please try again.'') s)"

definition handleSendMessage :: "unit outcome \<Rightarrow> group_chat \<Rightarrow> group_chat" where
  "handleSendMessage out s =
     (if sendRejected s then s else handleSendMessage_settle out (handleSendMessage_begin s))"


section \<open>GroupChat: search\<close>

text \<open>\<open>handleSearch\<close> past its guard, up to the \<open>await\<close> (lines 239--241).\<close>

definition handleSearch_begin :: "js_string \<Rightarrow> group_chat \<Rightarrow> group_chat" where
  "handleSearch_begin query s = emit [SearchMessages query] (s\<lparr>isSearching := True\<rparr>)"

text \<open>The rest of the \<open>try\<close>, or the \<open>catch\<close>, and then the \<open>finally\<close> (lines 242--249).\<close>

definition handleSearch_settle :: "GroupMessage list outcome \<Rightarrow> group_chat \<Rightarrow> group_chat" where
  "handleSearch_settle out s =
     (let s' = (case out of
                  Resolved results \<Rightarrow> s\<lparr>searchResults := results, showSearchResults := True\<rparr>
                | Rejected \<Rightarrow> setError (ascii ''Search failed. Please try again.'') s)
      in s'\<lparr>isSearching := False\<rparr>)"

definition handleSearch :: "GroupMessage list outcome \<Rightarrow> js_string \<Rightarrow> group_chat \<Rightarrow> group_chat" where
  "handleSearch out query s =
     (if trim query = [] then s else handleSearch_settle out (handleSearch_begin query s))"


section \<open>GroupChat: replies\<close>

definition replySnippet :: "js_string \<Rightarrow> js_string" where
  "replySnippet messageContent =
     (if length messageContent > 100 then substring0 messageContent 100 @ ascii ''...''
      else messageContent)"

definition handleReply :: "js_string \<Rightarrow> js_string \<Rightarrow> js_string \<Rightarrow> js_string \<Rightarrow> group_chat \<Rightarrow> group_chat" where
  "handleReply mid messageContent name time s =
     s\<lparr>replyState :=
        \<lparr>isReplying = True, messageId = Some mid,
         messageSnippet = Some (replySnippet messageContent),
         originalMessage =
           Some \<lparr>om_id = mid, om_content = messageContent, userName = name, timestamp = time\<rparr>\<rparr>\<rparr>"

definition cancelReply :: "group_chat \<Rightarrow> group_chat" where
  "cancelReply s = s\<lparr>replyState := idleReply\<rparr>"


section \<open>GroupChat: visualizations\<close>

definition generated :: js_string where
  "generated = ascii ''generated''"

definition entryGenerating :: VisualizationEntry where
  "entryGenerating = \<lparr>isGenerating = True, content = None, hasVisualization = False\<rparr>"

definition entryReady :: VisualizationEntry where
  "entryReady = \<lparr>isGenerating = False, content = Some generated, hasVisualization = True\<rparr>"

definition entryFailed :: VisualizationEntry where
  "entryFailed = \<lparr>isGenerating = False, content = None, hasVisualization = False\<rparr>"

text \<open>
  Each \<open>setVisualizationStates\<close> of the source is a functional update
  \<open>prev \<Rightarrow> {...prev, [messageId]: entry}\<close>: one key of the latest map is overwritten.
\<close>

definition setVisualizationEntry :: "js_string \<Rightarrow> VisualizationEntry \<Rightarrow> group_chat \<Rightarrow> group_chat" where
  "setVisualizationEntry mid e s = s\<lparr>visualizationStates := (visualizationStates s)(mid \<mapsto> e)\<rparr>"

text \<open>\<open>handleCreateVisualization\<close> up to the \<open>await\<close> (lines 334--347).\<close>

definition handleCreateVisualization_begin :: "js_string \<Rightarrow> js_string \<Rightarrow> group_chat \<Rightarrow> group_chat" where
  "handleCreateVisualization_begin mid messageContent s =
     emit [GenerateVisualization mid messageContent] (setVisualizationEntry mid entryGenerating s)"

text \<open>After the \<open>await\<close> (lines 349--369).\<close>

definition handleCreateVisualization_settle :: "unit outcome \<Rightarrow> js_string \<Rightarrow> group_chat \<Rightarrow> group_chat" where
  "handleCreateVisualization_settle out mid s =
     (case out of
        Resolved _ \<Rightarrow> setVisualizationEntry mid entryReady s
      | Rejected \<Rightarrow> setVisualizationEntry mid entryFailed s)"


text \<open>\<open>messages.find(m => m.id === messageId)?.visualization_data\<close>.\<close>

definition persistedVisualization :: "js_string \<Rightarrow> group_chat \<Rightarrow> js_string option" where
  "persistedVisualization mid s =
     (case find (\<lambda>m. message_id m = mid) (messages s) of
        None \<Rightarrow> None
      | Some message \<Rightarrow> visualization_data message)"



text \<open>
  The branch of the render that replaces the chat by the visualization view (lines
  398--410): the content handed to \<open>VisualizationView\<close>, or \<open>None\<close> when the chat is
  rendered. \<open>currentVisualization\<close> and \<open>getVisualization(id)?.content\<close> belong to the
  \<open>useVisualization\<close> hook and are parameters.
\<close>

definition visualizationView :: "js_string option \<Rightarrow> (js_string \<Rightarrow> js_string option) \<Rightarrow> group_chat \<Rightarrow> js_string option" where
  "visualizationView currentVisualization getVisualization s =
     (case currentVisualization of
        None \<Rightarrow> None
      | Some cur \<Rightarrow>
          if cur = [] then None
          else
            (let visualizationContent =
                   (if truthy (persistedVisualization cur s) then persistedVisualization cur s
                    else getVisualization cur)
             in if truthy visualizationContent \<and> visualizationContent \<noteq> Some generated
                then visualizationContent else None))"

text \<open>No entry is both generating and holding a visualization.\<close>

definition entryConsistent :: "VisualizationEntry \<Rightarrow> bool" where
  "entryConsistent e = (\<not> (isGenerating e \<and> hasVisualization e))"

definition visualizationInvariant :: "(js_string \<rightharpoonup> VisualizationEntry) \<Rightarrow> bool" where
  "visualizationInvariant m = (\<forall>k e. m k = Some e \<longrightarrow> entryConsistent e)"

text \<open>
  Every entry is one of the three the component writes. The map starts empty and
  \<open>handleCreateVisualization\<close> is its only writer, so this holds of every state the
  component reaches.
\<close>

definition writtenEntries :: "(js_string \<rightharpoonup> VisualizationEntry) \<Rightarrow> bool" where
  "writtenEntries m =
     (\<forall>k e. m k = Some e \<longrightarrow> e = entryGenerating \<or> e = entryReady \<or> e = entryFailed)"


section \<open>Sample data\<close>

definition msg :: "string \<Rightarrow> string \<Rightarrow> js_string option \<Rightarrow> GroupMessage" where
  "msg i u v = \<lparr>message_id = ascii i, user_id = ascii u, user_name = ascii u,
     user_email = [], message_content = ascii ''hello'', message_type = User, mentions = [],
     astra_prompt = None, visualization_data = v, created_at = [], updated_at = []\<rparr>"

text \<open>A draft with surrounding blanks, written while replying to message \<open>m1\<close>.\<close>

definition draft :: group_chat where
  "draft = handleReply (ascii ''m1'') (ascii ''hello'') (ascii ''Ann'') (ascii ''t0'')
             (group_chat_initial\<lparr>inputValue := ascii '' hi ''\<rparr>)"

text \<open>
  After the first load, signed in as \<open>u1\<close>, one message shown, the container scrolled
  to the top of 2000 pixels of content with 500 visible.
\<close>

definition farState :: group_chat where
  "farState = group_chat_initial
     \<lparr>hasScrolledToBottom := True, userId := Some (ascii ''u1''),
      messages := [msg ''m1'' ''u1'' None],
      messagesContainerRef := Some \<lparr>scrollHeight = 2000, scrollTop = 0, clientHeight = 500\<rparr>\<rparr>"

text \<open>A generation for \<open>m1\<close> has been requested and has not settled.\<close>

definition generatingState :: group_chat where
  "generatingState =
     handleCreateVisualization_begin (ascii ''m1'') (ascii ''draw a chart'') group_chat_initial"






section \<open>Auxiliary facts\<close>

lemma setChatMode_to_private_closes:
  "sidebarOpen (setChatMode Private s) = (chatMode s = Private \<and> sidebarOpen s)"
  by (simp add: setChatMode_def chatModeEffect_def)

lemma setChatMode_away_keeps_sidebar:
  "m \<noteq> Private \<Longrightarrow> sidebarOpen (setChatMode m s) = sidebarOpen s"
  by (simp add: setChatMode_def chatModeEffect_def)

lemma trim_blank: "trim (ascii ''  '') = []"
  by (simp add: trim_def ascii_def isWhiteSpace_def)

lemma trim_hi: "trim (ascii '' hi '') = ascii ''hi''"
  by (simp add: trim_def ascii_def isWhiteSpace_def)

lemma trim_q: "trim (ascii ''q'') \<noteq> []"
  by (simp add: trim_def ascii_def isWhiteSpace_def)

lemma length_ascii: "length (ascii cs) = length cs"
  by (simp add: ascii_def)

lemma sample_strings:
  "ascii ''hi'' \<noteq> []" "ascii ''<svg/>'' \<noteq> []" "ascii ''<svg/>'' \<noteq> ascii ''generated''"
  "ascii ''m0'' \<noteq> ascii ''m1''" "ascii ''m2'' \<noteq> ascii ''m1''"
  "ascii ''m1'' \<noteq> []" "ascii ''generated'' \<noteq> []"
  by (simp_all add: ascii_def)

lemma scrollToBottom_fields:
  "effects (scrollToBottom b s) = effects s @ scrollCommands b s"
  "messages (scrollToBottom b s) = messages s"
  "loadingMore (scrollToBottom b s) = loadingMore s"
  "messagesContainerRef (scrollToBottom b s) = messagesContainerRef s"
  "userId (scrollToBottom b s) = userId s"
  "hasScrolledToBottom (scrollToBottom b s) = hasScrolledToBottom s"
  "messagesEndRef (scrollToBottom b s) = messagesEndRef s"
  "isPWA (scrollToBottom b s) = isPWA s"
  by (simp_all add: scrollToBottom_def emit_def)

lemma farState_facts:
  "length (messages farState) < length [msg ''m1'' ''u1'' None, msg ''m2'' ''u2'' None]"
  "hasScrolledToBottom farState" "\<not> loadingMore farState" "effects farState = []"
  "messagesContainerRef farState = Some \<lparr>scrollHeight = 2000, scrollTop = 0, clientHeight = 500\<rparr>"
  "userId farState = Some (ascii ''u1'')"
  "scrollCommands b farState = [ScrollIntoView b]"
  by (simp_all add: farState_def group_chat_initial_def scrollCommands_def)

lemma far_not_near: "\<not> isNearBottom \<lparr>scrollHeight = 2000, scrollTop = 0, clientHeight = 500\<rparr>"
  by (simp add: isNearBottom_def)

lemma far_not_own:
  "Some (user_id (last [msg ''m1'' ''u1'' None, msg ''m2'' ''u2'' None])) \<noteq> Some (ascii ''u1'')"
  by (simp add: msg_def ascii_def)

lemma draft_facts:
  "trim (inputValue draft) = ascii ''hi''" "selectedImage draft = None" "effects draft = []"
  "replyData draft =
     Some \<lparr>om_id = ascii ''m1'', om_content = ascii ''hello'', userName = ascii ''Ann'',
            timestamp = ascii ''t0''\<rparr>"
  "\<not> loading draft" "replyState draft \<noteq> idleReply"
  by (simp_all add: draft_def handleReply_def group_chat_initial_def trim_hi replyData_def
      idleReply_def)

lemma generatingState_entry:
  "visualizationStates generatingState (ascii ''m1'') = Some entryGenerating"
  by (simp add: generatingState_def handleCreateVisualization_begin_def
      setVisualizationEntry_def emit_def)

lemma generatingState_effects:
  "effects generatingState = [GenerateVisualization (ascii ''m1'') (ascii ''draw a chart'')]"
  by (simp add: generatingState_def handleCreateVisualization_begin_def
      setVisualizationEntry_def emit_def group_chat_initial_def)

lemma generatingState_invariant: "visualizationInvariant (visualizationStates generatingState)"
  by (simp add: generatingState_def handleCreateVisualization_begin_def
      setVisualizationEntry_def emit_def group_chat_initial_def visualizationInvariant_def
      entryConsistent_def entryGenerating_def)




lemma visualizationInvariant_upd:
  "visualizationInvariant m \<Longrightarrow> entryConsistent e \<Longrightarrow> visualizationInvariant (m(k \<mapsto> e))"
  by (simp add: visualizationInvariant_def)

lemma entries_consistent:
  "entryConsistent entryGenerating" "entryConsistent entryReady" "entryConsistent entryFailed"
  by (simp_all add: entryConsistent_def entryGenerating_def entryReady_def entryFailed_def)

text \<open>The entries this component writes never carry displayable content of their own.\<close>

lemma written_entries_hold_no_content:
  "e \<in> {entryGenerating, entryReady, entryFailed} \<Longrightarrow> content e = None \<or> content e = Some generated"
  by (auto simp: entryGenerating_def entryReady_def entryFailed_def)


text \<open>The component reaches only states whose entries are the written ones.\<close>

lemma writtenEntries_initial: "writtenEntries (visualizationStates group_chat_initial)"
  by (simp add: group_chat_initial_def writtenEntries_def)

lemma writtenEntries_begin:
  "writtenEntries (visualizationStates s)
   \<Longrightarrow> writtenEntries (visualizationStates (handleCreateVisualization_begin mid c s))"
  by (simp add: handleCreateVisualization_begin_def setVisualizationEntry_def emit_def
      writtenEntries_def)

lemma writtenEntries_settle:
  "writtenEntries (visualizationStates s)
   \<Longrightarrow> writtenEntries (visualizationStates (handleCreateVisualization_settle out mid s))"
  by (cases out)
     (simp_all add: handleCreateVisualization_settle_def setVisualizationEntry_def
      writtenEntries_def)



lemma performAll_append: "performAll (xs @ ys) s = performAll ys (performAll xs s)"
  by (induction xs arbitrary: s) simp_all

text \<open>The visualization view is never given the placeholder.\<close>

lemma visualizationView_never_placeholder:
  "visualizationView cur getVisualization s \<noteq> Some generated"
  by (simp add: visualizationView_def Let_def split: option.splits)

text \<open>Once a message with a real payload is the current visualization, the view shows that payload.\<close>

lemma visualizationView_persisted:
  "mid \<noteq> [] \<Longrightarrow> persistedVisualization mid s = Some p \<Longrightarrow> p \<noteq> [] \<Longrightarrow> p \<noteq> generated
   \<Longrightarrow> visualizationView (Some mid) getVisualization s = Some p"
  by (simp add: visualizationView_def)

text \<open>Cancelling a reply restores the idle value, whatever the reply was.\<close>

lemma cancelReply_after_handleReply:
  "replyState (cancelReply (handleReply mid c name time s)) = idleReply"
  by (simp add: cancelReply_def)


section \<open>Chat mode and sidebar\<close>

text \<open>
  C1. Switching the mode away from \<open>private\<close> is claimed to leave the sidebar closed
  whatever it was before. The effect tests \<open>chatMode = private\<close>, so it closes the
  sidebar on entering private mode and does nothing on leaving it: entering private
  mode, opening the sidebar with the header toggle and switching to \<open>team\<close> (or to
  \<open>reports\<close>) leaves \<open>sidebarOpen\<close> true.
\<close>

theorem sidebar_stays_open_when_leaving_private:
  "sidebarOpen (setChatMode Team (onToggleSidebar (setChatMode Private main_initial))) = True
   \<and> chatMode (setChatMode Team (onToggleSidebar (setChatMode Private main_initial))) = Team
   \<and> sidebarOpen (setChatMode Reports (onToggleSidebar (setChatMode Private main_initial))) = True"
  by (simp add: setChatMode_def chatModeEffect_def onToggleSidebar_def main_initial_def)


section \<open>Scrolling on new messages\<close>

text \<open>
  C2, as stated, fails: with the container far from the bottom and the newest message
  written by somebody else, the growth of the list from one message to two still issues
  a scroll command, the immediate one of the effect on \<open>messages.length\<close>.
\<close>

theorem growth_far_other_author_counterexample:
  "length (messages farState) < length [msg ''m1'' ''u1'' None, msg ''m2'' ''u2'' None]
   \<and> hasScrolledToBottom farState \<and> \<not> loadingMore farState
   \<and> messagesContainerRef farState = Some \<lparr>scrollHeight = 2000, scrollTop = 0, clientHeight = 500\<rparr>
   \<and> \<not> isNearBottom \<lparr>scrollHeight = 2000, scrollTop = 0, clientHeight = 500\<rparr>
   \<and> \<not> isOwnMessage (farState\<lparr>messages := [msg ''m1'' ''u1'' None, msg ''m2'' ''u2'' None]\<rparr>)
   \<and> effects farState = []
   \<and> effects (messagesChanged [msg ''m1'' ''u1'' None, msg ''m2'' ''u2'' None] farState)
       = [ScrollIntoView Auto]"
  by (simp add: farState_def group_chat_initial_def messagesChanged_def messagesLengthEffect_def
      newMessagesEffect_def scrollToBottom_def scrollCommands_def emit_def isNearBottom_def
      isOwnMessage_def msg_def ascii_def Let_def)

text \<open>
  C2, amended. When the list grows after the first load and no older messages are being
  loaded, the effect on \<open>messages.length\<close> always calls \<open>scrollToBottom('auto')\<close>, and
  after it \<open>scrollToBottom('smooth')\<close> is called if and only if the container is mounted
  and the viewport is less than 100 pixels from the bottom or the newest message is the
  current user's.
\<close>

theorem growth_scroll_commands:
  assumes "length (messages s) < length ms" and "hasScrolledToBottom s" and "\<not> loadingMore s"
  shows "effects (messagesChanged ms s) =
           effects s @ scrollCommands Auto s @
           (case messagesContainerRef s of
              None \<Rightarrow> []
            | Some container \<Rightarrow>
                if isNearBottom container \<or> Some (user_id (last ms)) = userId s
                then scrollCommands Smooth s else [])"
proof -
  from assms(1) have ne: "ms \<noteq> []" and len: "length ms \<noteq> length (messages s)" by auto
  let ?s1 = "s\<lparr>messages := ms\<rparr>"
  let ?s2 = "messagesLengthEffect ?s1"
  have s2: "?s2 = (scrollToBottom Auto ?s1)\<lparr>hasScrolledToBottom := True\<rparr>"
    using ne by (simp add: messagesLengthEffect_def)
  have c: "\<And>b. scrollCommands b ?s2 = scrollCommands b s" "\<And>b. scrollCommands b ?s1 = scrollCommands b s"
    by (simp_all add: s2 scrollCommands_def scrollToBottom_fields)
  have e2: "effects ?s2 = effects s @ scrollCommands Auto s"
    by (simp add: s2 scrollToBottom_fields c)
  have f2: "messages ?s2 = ms" "loadingMore ?s2 = loadingMore s"
    "messagesContainerRef ?s2 = messagesContainerRef s" "userId ?s2 = userId s"
    "hasScrolledToBottom ?s2"
    by (simp_all add: s2 scrollToBottom_fields)
  have h3: "hasScrolledToBottom (newMessagesEffect ?s2)"
    by (simp add: newMessagesEffect_def f2 scrollToBottom_fields split: option.splits)
  have e3: "effects (newMessagesEffect ?s2) =
           effects s @ scrollCommands Auto s @
           (case messagesContainerRef s of
              None \<Rightarrow> []
            | Some container \<Rightarrow>
                if isNearBottom container \<or> Some (user_id (last ms)) = userId s
                then scrollCommands Smooth s else [])"
    using ne assms(3)
    by (simp add: newMessagesEffect_def f2 e2 c isOwnMessage_def scrollToBottom_fields
        split: option.splits)
  have "messagesChanged ms s = newMessagesEffect ?s2"
    using len h3 assms(2) by (simp add: messagesChanged_def Let_def)
  with e3 show ?thesis by simp
qed

theorem growth_scroll_commands_witness:
  "length (messages farState) < length [msg ''m1'' ''u1'' None, msg ''m2'' ''u2'' None]
   \<and> hasScrolledToBottom farState \<and> \<not> loadingMore farState
   \<and> effects (messagesChanged [msg ''m1'' ''u1'' None, msg ''m2'' ''u2'' None] farState)
       = [ScrollIntoView Auto]
   \<and> effects (messagesChanged [msg ''m1'' ''u1'' None, msg ''m2'' ''u1'' None] farState)
       = [ScrollIntoView Auto, ScrollIntoView Smooth]"
  using growth_scroll_commands [OF farState_facts(1-3)]
    growth_scroll_commands [of farState "[msg ''m1'' ''u1'' None, msg ''m2'' ''u1'' None]"]
    farState_facts far_not_near far_not_own
  by (simp add: msg_def)


section \<open>Requesting a visualization\<close>

text \<open>
  C3, as stated, fails: \<open>handleCreateVisualization\<close> tests nothing before it writes the
  entry and calls the hook, so a request for \<open>m1\<close> made while \<open>m1\<close> is generating
  calls \<open>generateVisualization\<close> a second time.
\<close>

theorem request_while_generating_counterexample:
  "visualizationStates generatingState (ascii ''m1'') = Some entryGenerating
   \<and> isGenerating entryGenerating
   \<and> effects (handleCreateVisualization_begin (ascii ''m1'') (ascii ''draw a chart'') generatingState)
       = effects generatingState @ [GenerateVisualization (ascii ''m1'') (ascii ''draw a chart'')]
   \<and> effects (handleCreateVisualization_begin (ascii ''m1'') (ascii ''draw a chart'') generatingState)
       \<noteq> effects generatingState"
  by (simp add: generatingState_entry entryGenerating_def handleCreateVisualization_begin_def
      setVisualizationEntry_def emit_def)

text \<open>
  C3, amended. Whatever the entry of the message was, a request sets it to the
  generating entry, calls \<open>generateVisualization\<close> once more and leaves the entries of
  all other messages as they were; the handler has no guard of its own.
\<close>

theorem request_always_starts_generation:
  "visualizationStates (handleCreateVisualization_begin mid c s) mid = Some entryGenerating
   \<and> isGenerating entryGenerating
   \<and> effects (handleCreateVisualization_begin mid c s) = effects s @ [GenerateVisualization mid c]
   \<and> (\<forall>k. k \<noteq> mid \<longrightarrow>
         visualizationStates (handleCreateVisualization_begin mid c s) k = visualizationStates s k)"
  by (simp add: handleCreateVisualization_begin_def setVisualizationEntry_def emit_def
      entryGenerating_def)

theorem request_always_starts_generation_witness:
  "visualizationStates generatingState (ascii ''m1'') = Some entryGenerating
   \<and> visualizationStates
        (handleCreateVisualization_begin (ascii ''m1'') (ascii ''draw a chart'') generatingState)
        (ascii ''m1'') = Some entryGenerating
   \<and> effects (handleCreateVisualization_begin (ascii ''m1'') (ascii ''draw a chart'') generatingState)
       = [GenerateVisualization (ascii ''m1'') (ascii ''draw a chart''),
          GenerateVisualization (ascii ''m1'') (ascii ''draw a chart'')]
   \<and> ascii ''m2'' \<noteq> ascii ''m1''
   \<and> visualizationStates
        (handleCreateVisualization_begin (ascii ''m1'') (ascii ''draw a chart'') generatingState)
        (ascii ''m2'') = visualizationStates generatingState (ascii ''m2'')"
  using request_always_starts_generation [of "ascii ''m1''" "ascii ''draw a chart''" generatingState]
    generatingState_entry generatingState_effects sample_strings
  by simp


section \<open>Sending\<close>

text \<open>
  C4. When the trimmed input is empty and no image is selected, or while \<open>loading\<close> is
  set, \<open>handleSendMessage\<close> returns at once: the state, the trace of calls included, is
  the one it started from, however the promise would have settled.
\<close>

theorem send_rejected_noop:
  assumes "(trim (inputValue s) = [] \<and> selectedImage s = None) \<or> loading s"
  shows "handleSendMessage out s = s"
  using assms by (simp add: handleSendMessage_def sendRejected_def)

theorem send_rejected_noop_witness:
  "((trim (inputValue (group_chat_initial\<lparr>inputValue := ascii ''  ''\<rparr>)) = []
      \<and> selectedImage (group_chat_initial\<lparr>inputValue := ascii ''  ''\<rparr>) = None)
     \<or> loading (group_chat_initial\<lparr>inputValue := ascii ''  ''\<rparr>))
   \<and> handleSendMessage Rejected (group_chat_initial\<lparr>inputValue := ascii ''  ''\<rparr>)
       = group_chat_initial\<lparr>inputValue := ascii ''  ''\<rparr>
   \<and> effects (handleSendMessage (Resolved ()) (group_chat_initial\<lparr>inputValue := ascii ''  ''\<rparr>)) = []"
proof -
  let ?s = "group_chat_initial\<lparr>inputValue := ascii ''  ''\<rparr>"
  have h: "(trim (inputValue ?s) = [] \<and> selectedImage ?s = None) \<or> loading ?s"
    by (simp add: trim_blank group_chat_initial_def)
  have e: "effects ?s = []" by (simp add: group_chat_initial_def)
  show ?thesis
    using h e send_rejected_noop [OF h, of Rejected] send_rejected_noop [OF h, of "Resolved ()"]
    by simp
qed

text \<open>
  C5. An accepted send makes four calls and then waits: the three setters that clear the
  input, the image and the reply, and last \<open>sendMessage\<close>, given the trimmed text, the
  image and the reply target read before the clearing. When \<open>sendMessage\<close> is called the
  three cells have been cleared and no collaborator has been called yet; while the
  promise is pending the cells are cleared; however it settles they stay cleared, and
  when it rejects the error string is set and nothing is sent again.
\<close>

theorem send_accepted_clears_then_invokes:
  assumes "\<not> ((trim (inputValue s) = [] \<and> selectedImage s = None) \<or> loading s)"
  shows "(\<exists>pre. handleSendMessage_calls s =
                 pre @ [Call_sendMessage (trim (inputValue s)) (selectedImage s) (replyData s)]
              \<and> inputValue (performAll pre s) = []
              \<and> selectedImage (performAll pre s) = None
              \<and> replyState (performAll pre s) = idleReply
              \<and> effects (performAll pre s) = effects s)
         \<and> inputValue (handleSendMessage_begin s) = []
         \<and> selectedImage (handleSendMessage_begin s) = None
         \<and> replyState (handleSendMessage_begin s) = idleReply
         \<and> error (handleSendMessage_begin s) = error s
         \<and> effects (handleSendMessage_begin s) =
             effects s @ [SendMessage (trim (inputValue s)) (selectedImage s) (replyData s)]
         \<and> inputValue (handleSendMessage out s) = []
         \<and> selectedImage (handleSendMessage out s) = None
         \<and> replyState (handleSendMessage out s) = idleReply
         \<and> error (handleSendMessage Rejected s) = Some (ascii ''Failed to send message. Please try again.'')
         \<and> effects (handleSendMessage Rejected s) =
             effects s @ [SendMessage (trim (inputValue s)) (selectedImage s) (replyData s)]
         \<and> error (handleSendMessage (Resolved ()) s) = error s"
proof -
  let ?pre = "[Call_setInputValue [], Call_setSelectedImage None, Call_setReplyState idleReply]"
  let ?call = "Call_sendMessage (trim (inputValue s)) (selectedImage s) (replyData s)"
  have calls: "handleSendMessage_calls s = ?pre @ [?call]"
    by (simp add: handleSendMessage_calls_def)
  have pre: "inputValue (performAll ?pre s) = []" "selectedImage (performAll ?pre s) = None"
    "replyState (performAll ?pre s) = idleReply" "effects (performAll ?pre s) = effects s"
    by simp_all
  have order: "\<exists>pre. handleSendMessage_calls s = pre @ [?call]
              \<and> inputValue (performAll pre s) = []
              \<and> selectedImage (performAll pre s) = None
              \<and> replyState (performAll pre s) = idleReply
              \<and> effects (performAll pre s) = effects s"
    using calls pre by blast
  have pending: "inputValue (handleSendMessage_begin s) = []"
    "selectedImage (handleSendMessage_begin s) = None"
    "replyState (handleSendMessage_begin s) = idleReply"
    "error (handleSendMessage_begin s) = error s"
    "effects (handleSendMessage_begin s) = effects s @ [SendMessage (trim (inputValue s)) (selectedImage s) (replyData s)]"
    by (simp_all add: handleSendMessage_begin_def handleSendMessage_calls_def emit_def)
  have accepted: "\<not> sendRejected s"
    using assms unfolding sendRejected_def by blast
  have run: "handleSendMessage out' s = handleSendMessage_settle out' (handleSendMessage_begin s)" for out'
    by (simp add: handleSendMessage_def accepted)
  have settled: "inputValue (handleSendMessage out s) = []"
    "selectedImage (handleSendMessage out s) = None"
    "replyState (handleSendMessage out s) = idleReply"
    by (cases out; simp add: run handleSendMessage_settle_def emit_def setError_def pending)+
  have rejected: "error (handleSendMessage Rejected s) = Some (ascii ''Failed to send message. Please try again.'')"
    "effects (handleSendMessage Rejected s) = effects s @ [SendMessage (trim (inputValue s)) (selectedImage s) (replyData s)]"
    by (simp_all add: run handleSendMessage_settle_def setError_def pending)
  have resolved: "error (handleSendMessage (Resolved ()) s) = error s"
    by (simp add: run handleSendMessage_settle_def emit_def pending)
  from order pending settled rejected resolved show ?thesis by blast
qed

theorem send_accepted_witness:
  "\<not> ((trim (inputValue draft) = [] \<and> selectedImage draft = None) \<or> loading draft)
   \<and> inputValue draft = ascii '' hi '' \<and> replyState draft \<noteq> idleReply
   \<and> inputValue (handleSendMessage_begin draft) = []
   \<and> replyState (handleSendMessage_begin draft) = idleReply
   \<and> effects (handleSendMessage_begin draft) =
       [SendMessage (ascii ''hi'') None
          (Some \<lparr>om_id = ascii ''m1'', om_content = ascii ''hello'', userName = ascii ''Ann'',
                  timestamp = ascii ''t0''\<rparr>)]
   \<and> inputValue (handleSendMessage Rejected draft) = []
   \<and> replyState (handleSendMessage Rejected draft) = idleReply
   \<and> error (handleSendMessage Rejected draft) = Some (ascii ''Failed to send message. Please try again.'')
   \<and> effects (handleSendMessage Rejected draft) =
       [SendMessage (ascii ''hi'') None
          (Some \<lparr>om_id = ascii ''m1'', om_content = ascii ''hello'', userName = ascii ''Ann'',
                  timestamp = ascii ''t0''\<rparr>)]"
proof -
  have h: "\<not> ((trim (inputValue draft) = [] \<and> selectedImage draft = None) \<or> loading draft)"
    by (simp add: draft_facts sample_strings)
  have i: "inputValue draft = ascii '' hi ''"
    by (simp add: draft_def handleReply_def)
  note t = send_accepted_clears_then_invokes [OF h, of Rejected, unfolded draft_facts(1-4) append_Nil]
  from h i draft_facts(6) t show ?thesis by blast
qed


section \<open>Replying\<close>

text \<open>
  C6. The snippet stored by \<open>handleReply\<close> is the first 100 code units of the content
  followed by \<open>...\<close> when the content is longer than 100, and the content itself
  otherwise; a content of 150 gives a snippet of 103.
\<close>

theorem reply_snippet_truncation:
  "(length c > 100 \<longrightarrow>
      messageSnippet (replyState (handleReply mid c name time s)) = Some (take 100 c @ ascii ''...''))
   \<and> (length c \<le> 100 \<longrightarrow>
      messageSnippet (replyState (handleReply mid c name time s)) = Some c)
   \<and> (length c = 150 \<longrightarrow>
      length (the (messageSnippet (replyState (handleReply mid c name time s)))) = 103)"
  by (simp add: handleReply_def replySnippet_def substring0_def ascii_def)

theorem reply_snippet_witness:
  "length (replicate 150 (0x61 :: 16 word)) > 100
   \<and> messageSnippet (replyState (handleReply (ascii ''m1'') (replicate 150 0x61) (ascii ''Ann'')
        (ascii ''t0'') group_chat_initial))
       = Some (replicate 100 0x61 @ ascii ''...'')
   \<and> length (the (messageSnippet (replyState (handleReply (ascii ''m1'') (replicate 150 0x61)
        (ascii ''Ann'') (ascii ''t0'') group_chat_initial)))) = 103
   \<and> length (replicate 50 (0x61 :: 16 word)) \<le> 100
   \<and> messageSnippet (replyState (handleReply (ascii ''m1'') (replicate 50 0x61) (ascii ''Ann'')
        (ascii ''t0'') group_chat_initial))
       = Some (replicate 50 0x61)"
  using reply_snippet_truncation [of "replicate 150 0x61" "ascii ''m1''" "ascii ''Ann''" "ascii ''t0''" group_chat_initial]
    reply_snippet_truncation [of "replicate 50 0x61" "ascii ''m1''" "ascii ''Ann''" "ascii ''t0''" group_chat_initial]
  by (simp add: length_ascii)


section \<open>Viewing a visualization\<close>





section \<open>The visualization entries\<close>

text \<open>
  C8. Each of the three updates of \<open>visualizationStates\<close> (request, success, failure)
  keeps every entry of the map from being generating and holding a visualization at
  once, and the entry it writes is never both.
\<close>

theorem visualization_updates_preserve_invariant:
  assumes "visualizationInvariant (visualizationStates s)"
  shows "visualizationInvariant (visualizationStates (handleCreateVisualization_begin mid c s))
         \<and> visualizationInvariant (visualizationStates (handleCreateVisualization_settle (Resolved ()) mid s))
         \<and> visualizationInvariant (visualizationStates (handleCreateVisualization_settle Rejected mid s))
         \<and> (\<forall>e. visualizationStates (handleCreateVisualization_begin mid c s) mid = Some e
                \<longrightarrow> \<not> (isGenerating e \<and> hasVisualization e))
         \<and> (\<forall>e. visualizationStates (handleCreateVisualization_settle out mid s) mid = Some e
                \<longrightarrow> \<not> (isGenerating e \<and> hasVisualization e))"
proof -
  have b: "visualizationStates (handleCreateVisualization_begin mid c s)
           = (visualizationStates s)(mid \<mapsto> entryGenerating)"
    by (simp add: handleCreateVisualization_begin_def setVisualizationEntry_def emit_def)
  have r: "visualizationStates (handleCreateVisualization_settle (Resolved ()) mid s)
           = (visualizationStates s)(mid \<mapsto> entryReady)"
    by (simp add: handleCreateVisualization_settle_def setVisualizationEntry_def)
  have f: "visualizationStates (handleCreateVisualization_settle Rejected mid s)
           = (visualizationStates s)(mid \<mapsto> entryFailed)"
    by (simp add: handleCreateVisualization_settle_def setVisualizationEntry_def)
  have o: "visualizationStates (handleCreateVisualization_settle out mid s) mid = Some entryReady
           \<or> visualizationStates (handleCreateVisualization_settle out mid s) mid = Some entryFailed"
    by (cases out) (simp_all add: handleCreateVisualization_settle_def setVisualizationEntry_def)
  from assms b r f o show ?thesis
    using entries_consistent
    by (auto simp: visualizationInvariant_upd entryConsistent_def)
qed

theorem visualization_updates_preserve_invariant_witness:
  "visualizationInvariant (visualizationStates generatingState)
   \<and> visualizationInvariant
        (visualizationStates (handleCreateVisualization_settle (Resolved ()) (ascii ''m1'') generatingState))
   \<and> visualizationInvariant
        (visualizationStates (handleCreateVisualization_settle Rejected (ascii ''m1'') generatingState))
   \<and> visualizationInvariant
        (visualizationStates
          (handleCreateVisualization_begin (ascii ''m2'') (ascii ''draw a chart'') generatingState))"
  using generatingState_invariant
    visualization_updates_preserve_invariant [OF generatingState_invariant]
  by blast


section \<open>Searching\<close>

text \<open>
  C9. \<open>handleSearch\<close> does nothing for a query that is blank once trimmed. Otherwise it
  calls \<open>searchMessages\<close>; when that resolves, the results replace \<open>searchResults\<close> and
  the results surface is opened; when it rejects, the error string is set and
  \<open>searchResults\<close> and \<open>showSearchResults\<close> are what they were.
\<close>

theorem search_contract:
  "(trim query = [] \<longrightarrow> handleSearch out query s = s)
   \<and> (trim query \<noteq> [] \<longrightarrow>
        searchResults (handleSearch (Resolved results) query s) = results
        \<and> showSearchResults (handleSearch (Resolved results) query s) = True
        \<and> error (handleSearch (Resolved results) query s) = error s
        \<and> effects (handleSearch (Resolved results) query s) = effects s @ [SearchMessages query])
   \<and> (trim query \<noteq> [] \<longrightarrow>
        error (handleSearch Rejected query s) = Some (ascii ''Search failed. Please try again.'')
        \<and> searchResults (handleSearch Rejected query s) = searchResults s
        \<and> showSearchResults (handleSearch Rejected query s) = showSearchResults s
        \<and> effects (handleSearch Rejected query s) = effects s @ [SearchMessages query])"
  by (simp add: handleSearch_def handleSearch_begin_def handleSearch_settle_def emit_def
      setError_def)

theorem search_contract_witness:
  "trim (ascii ''  '') = []
   \<and> handleSearch Rejected (ascii ''  '') group_chat_initial = group_chat_initial
   \<and> trim (ascii ''q'') \<noteq> []
   \<and> searchResults (handleSearch (Resolved [msg ''m7'' ''u2'' None]) (ascii ''q'') group_chat_initial)
       = [msg ''m7'' ''u2'' None]
   \<and> showSearchResults (handleSearch (Resolved [msg ''m7'' ''u2'' None]) (ascii ''q'') group_chat_initial)
       = True
   \<and> error (handleSearch Rejected (ascii ''q'')
        (group_chat_initial\<lparr>searchResults := [msg ''m7'' ''u2'' None]\<rparr>))
       = Some (ascii ''Search failed. Please try again.'')
   \<and> searchResults (handleSearch Rejected (ascii ''q'')
        (group_chat_initial\<lparr>searchResults := [msg ''m7'' ''u2'' None]\<rparr>))
       = [msg ''m7'' ''u2'' None]
   \<and> showSearchResults (handleSearch Rejected (ascii ''q'')
        (group_chat_initial\<lparr>searchResults := [msg ''m7'' ''u2'' None]\<rparr>))
       = False"
  using trim_blank trim_q
    search_contract [of "ascii ''  ''" Rejected group_chat_initial]
    search_contract [of "ascii ''q''" _ group_chat_initial "[msg ''m7'' ''u2'' None]"]
    search_contract [of "ascii ''q''" _ "group_chat_initial\<lparr>searchResults := [msg ''m7'' ''u2'' None]\<rparr>"]
  by (simp add: group_chat_initial_def)

text \<open>
  C10. For a query that is not blank, \<open>isSearching\<close> is true while \<open>searchMessages\<close> is
  awaited and false once \<open>handleSearch\<close> has finished, whether the promise resolved or
  rejected.
\<close>

theorem search_busy_flag_cleared:
  assumes "trim query \<noteq> []"
  shows "isSearching (handleSearch_begin query s) = True
         \<and> isSearching (handleSearch (Resolved results) query s) = False
         \<and> isSearching (handleSearch Rejected query s) = False"
  using assms
  by (simp add: handleSearch_def handleSearch_begin_def handleSearch_settle_def emit_def
      setError_def)

theorem search_busy_flag_cleared_witness:
  "trim (ascii ''q'') \<noteq> []
   \<and> isSearching (handleSearch (Resolved [msg ''m7'' ''u2'' None]) (ascii ''q'')
        (group_chat_initial\<lparr>isSearching := True\<rparr>)) = False
   \<and> isSearching (handleSearch Rejected (ascii ''q'') (group_chat_initial\<lparr>isSearching := True\<rparr>)) = False"
  using trim_q
    search_busy_flag_cleared [OF trim_q, of "group_chat_initial\<lparr>isSearching := True\<rparr>" "[msg ''m7'' ''u2'' None]"]
  by simp

end
